theory Spec2Isabelle
  imports Main "HOL-Library.Word"
begin

unbundle bit_operations_syntax

section \<open>The LTC2942 gas-gauge driver (LTC2942.c)\<close>

text \<open>
  The driver is a flat list of C functions over two platform services that are not part
  of the file: the bus transaction \<open>HAL_I2C_readWrite\<close> and the delay \<open>usleep\<close>.
  Both are taken as parameters. The world they act on (the chip, the bus, the clock) is
  a state of an arbitrary type \<open>'w\<close> that every driver function receives and returns.
\<close>

subsection \<open>C types\<close>

type_synonym uint8_t = "8 word"
type_synonym uint16_t = "16 word"
type_synonym int16_t = "16 word"   \<comment> \<open>the bits of an int16_t; \<open>sint\<close> is the value the caller reads\<close>
type_synonym c_int = "32 word"     \<comment> \<open>the type a uint8_t operand is promoted to\<close>
type_synonym dev_id = nat          \<comment> \<open>an opaque device handle\<close>

subsection \<open>The platform services\<close>

text \<open>
  \<open>HAL_I2C_readWrite(id, tx, tx_len, rx, rx_len)\<close> receives the bytes to transmit and
  a receive buffer, and returns a bool. The buffer is passed by pointer: the model hands
  the service the buffer's current contents and gets the contents after the call back,
  so a service that fails may leave the buffer alone or scribble on it. The returned
  bool is read as "the transaction succeeded", as the specification names it.
\<close>

record 'w hal =
  HAL_I2C_readWrite :: "dev_id \<Rightarrow> uint8_t list \<Rightarrow> uint8_t list \<Rightarrow> 'w \<Rightarrow> bool \<times> uint8_t list \<times> 'w"
  usleep :: "nat \<Rightarrow> 'w \<Rightarrow> 'w"

subsection \<open>Register map and command codes\<close>

definition DEVICE_ID :: uint8_t where "DEVICE_ID = 0x00"

definition STATUS_REG :: uint8_t where "STATUS_REG = 0x00"
definition CONTROL_REG :: uint8_t where "CONTROL_REG = 0x01"
definition ACCUM_CHARGE_MSB_REG :: uint8_t where "ACCUM_CHARGE_MSB_REG = 0x02"
definition ACCUM_CHARGE_LSB_REG :: uint8_t where "ACCUM_CHARGE_LSB_REG = 0x03"
definition VOLTAGE_MSB_REG :: uint8_t where "VOLTAGE_MSB_REG = 0x08"
definition VOLTAGE_LSB_REG :: uint8_t where "VOLTAGE_LSB_REG = 0x09"
definition TEMPERATURE_MSB_REG :: uint8_t where "TEMPERATURE_MSB_REG = 0x0C"
definition TEMPERATURE_LSB_REG :: uint8_t where "TEMPERATURE_LSB_REG = 0x0D"

definition AUTOMATIC_MODE :: uint8_t where "AUTOMATIC_MODE = 0xC0"
definition MANUAL_VOLTAGE :: uint8_t where "MANUAL_VOLTAGE = 0x80"
definition MANUAL_TEMPERATURE :: uint8_t where "MANUAL_TEMPERATURE = 0x40"
definition SLEEP_MODE :: uint8_t where "SLEEP_MODE = 0x00"

definition PRESCALAR_M_1 :: uint8_t where "PRESCALAR_M_1 = 0x00"
definition PRESCALAR_M_2 :: uint8_t where "PRESCALAR_M_2 = 0x08"
definition PRESCALAR_M_4 :: uint8_t where "PRESCALAR_M_4 = 0x10"
definition PRESCALAR_M_8 :: uint8_t where "PRESCALAR_M_8 = 0x18"
definition PRESCALAR_M_16 :: uint8_t where "PRESCALAR_M_16 = 0x20"
definition PRESCALAR_M_32 :: uint8_t where "PRESCALAR_M_32 = 0x28"
definition PRESCALAR_M_64 :: uint8_t where "PRESCALAR_M_64 = 0x30"
definition PRESCALAR_M_128 :: uint8_t where "PRESCALAR_M_128 = 0x38"

definition ALERT_MODE :: uint8_t where "ALERT_MODE = 0x04"
definition CHARGE_COMPLETE_MODE :: uint8_t where "CHARGE_COMPLETE_MODE = 0x02"
definition DISABLE_ALCC_PIN :: uint8_t where "DISABLE_ALCC_PIN = 0x00"

definition SHUTDOWN_MODE :: uint8_t where "SHUTDOWN_MODE = 0x01"

text \<open>
  The fields of the control register, read off the command codes: a field is the set of
  bits its codes occupy.
\<close>

definition mode_field :: "uint8_t \<Rightarrow> uint8_t" where
  "mode_field c = c AND (AUTOMATIC_MODE OR MANUAL_VOLTAGE OR MANUAL_TEMPERATURE OR SLEEP_MODE)"

definition prescaler_field :: "uint8_t \<Rightarrow> uint8_t" where
  "prescaler_field c =
     c AND (PRESCALAR_M_1 OR PRESCALAR_M_2 OR PRESCALAR_M_4 OR PRESCALAR_M_8 OR
            PRESCALAR_M_16 OR PRESCALAR_M_32 OR PRESCALAR_M_64 OR PRESCALAR_M_128)"

definition alcc_field :: "uint8_t \<Rightarrow> uint8_t" where
  "alcc_field c = c AND (ALERT_MODE OR CHARGE_COMPLETE_MODE OR DISABLE_ALCC_PIN)"

definition shutdown_field :: "uint8_t \<Rightarrow> uint8_t" where
  "shutdown_field c = c AND SHUTDOWN_MODE"

subsection \<open>Transport primitives\<close>

text \<open>
  \<open>ltc_readRegister(id, reg, res)\<close>: one transaction that sends the register number and
  receives one byte into \<open>*res\<close>. The model takes the byte \<open>*res\<close> holds before the
  call and returns the byte it holds afterwards.
\<close>

definition stored :: "uint8_t \<Rightarrow> uint8_t list \<Rightarrow> uint8_t" where
  "stored old rx = (case rx of [] \<Rightarrow> old | b # _ \<Rightarrow> b)"

definition ltc_readRegister ::
  "'w hal \<Rightarrow> dev_id \<Rightarrow> uint8_t \<Rightarrow> uint8_t \<Rightarrow> 'w \<Rightarrow> bool \<times> uint8_t \<times> 'w" where
  "ltc_readRegister h dev reg res w =
     (case HAL_I2C_readWrite h dev [reg] [res] w of
        (res1, rx, w') \<Rightarrow> (res1, stored res rx, w'))"

text \<open>\<open>ltc_writeRegister(id, reg, res)\<close>: one transaction sending \<open>{reg, res}\<close>, no receive buffer.\<close>

definition ltc_writeRegister ::
  "'w hal \<Rightarrow> dev_id \<Rightarrow> uint8_t \<Rightarrow> uint8_t \<Rightarrow> 'w \<Rightarrow> bool \<times> 'w" where
  "ltc_writeRegister h dev reg res w =
     (case HAL_I2C_readWrite h dev [reg, res] [] w of
        (res1, rx, w') \<Rightarrow> (res1, w'))"

subsection \<open>Device operations\<close>

text \<open>\<open>ltc_readDeviceID\<close>: \<open>res\<close> starts at 0, the outcome of the read is dropped.\<close>

definition ltc_readDeviceID :: "'w hal \<Rightarrow> dev_id \<Rightarrow> 'w \<Rightarrow> bool \<times> 'w" where
  "ltc_readDeviceID h dev w =
     (case ltc_readRegister h dev STATUS_REG 0 w of
        (r, res, w') \<Rightarrow> ((res AND 0xC0) = DEVICE_ID, w'))"

definition ltc_init :: "'w hal \<Rightarrow> dev_id \<Rightarrow> 'w \<Rightarrow> 'w" where
  "ltc_init h dev w =
     (case ltc_writeRegister h dev CONTROL_REG 0xC8 w of
        (r, w1) \<Rightarrow> usleep h 1 w1)"

definition ltc_reset_charge :: "'w hal \<Rightarrow> dev_id \<Rightarrow> 'w \<Rightarrow> 'w" where
  "ltc_reset_charge h dev w =
     (case ltc_readRegister h dev CONTROL_REG 0 w of
        (r0, reg_save, w1) \<Rightarrow>
     (case ltc_writeRegister h dev CONTROL_REG (reg_save OR SHUTDOWN_MODE) w1 of
        (r1, w2) \<Rightarrow>
     (case ltc_writeRegister h dev ACCUM_CHARGE_MSB_REG 0x00 w2 of
        (r2, w3) \<Rightarrow>
     (case ltc_writeRegister h dev ACCUM_CHARGE_LSB_REG 0x00 w3 of
        (r3, w4) \<Rightarrow>
     (case ltc_writeRegister h dev CONTROL_REG reg_save w4 of
        (r4, w5) \<Rightarrow> w5)))))"

text \<open>
  The expression \<open>(adc_code[1] << 8) | adc_code[0]\<close>: both bytes are promoted to int,
  and the result is converted to the 16-bit type of the output parameter.
\<close>

definition assemble :: "uint8_t \<Rightarrow> uint8_t \<Rightarrow> uint16_t" where
  "assemble msb lsb = ucast (push_bit 8 (ucast msb :: c_int) OR (ucast lsb :: c_int))"

text \<open>
  The measurement reads. \<open>adc_code\<close> is an uninitialised local array in all three: the
  bytes it holds on entry are the parameters \<open>adc0\<close> (for \<open>adc_code[0]\<close>) and \<open>adc1\<close>
  (for \<open>adc_code[1]\<close>). Each function returns its bool, the value it stored through the
  output pointer, and the world.
\<close>

definition ltc_code_to_voltage ::
  "'w hal \<Rightarrow> dev_id \<Rightarrow> uint8_t \<Rightarrow> uint8_t \<Rightarrow> 'w \<Rightarrow> bool \<times> uint16_t \<times> 'w" where
  "ltc_code_to_voltage h dev adc0 adc1 w =
     (case ltc_readRegister h dev VOLTAGE_MSB_REG adc1 w of
        (res1, a1, w1) \<Rightarrow>
     (case ltc_readRegister h dev VOLTAGE_LSB_REG adc0 (usleep h 1 w1) of
        (res2, a0, w3) \<Rightarrow>
          (res1 \<and> res2, assemble a1 a0, usleep h 1 w3)))"

text \<open>
  \<open>ltc_temp\<close> casts the assembled int to uint16_t and stores it in an int16_t: the same
  16 bits, read as two's complement by the caller.
\<close>

definition ltc_temp ::
  "'w hal \<Rightarrow> dev_id \<Rightarrow> uint8_t \<Rightarrow> uint8_t \<Rightarrow> 'w \<Rightarrow> bool \<times> int16_t \<times> 'w" where
  "ltc_temp h dev adc0 adc1 w =
     (case ltc_readRegister h dev TEMPERATURE_MSB_REG adc1 w of
        (res1, a1, w1) \<Rightarrow>
     (case ltc_readRegister h dev TEMPERATURE_LSB_REG adc0 (usleep h 1 w1) of
        (res2, a0, w3) \<Rightarrow>
          (res1 \<and> res2, assemble a1 a0, usleep h 1 w3)))"

definition ltc_capacity ::
  "'w hal \<Rightarrow> dev_id \<Rightarrow> uint8_t \<Rightarrow> uint8_t \<Rightarrow> 'w \<Rightarrow> bool \<times> uint16_t \<times> 'w" where
  "ltc_capacity h dev adc0 adc1 w =
     (case ltc_readRegister h dev ACCUM_CHARGE_MSB_REG adc1 w of
        (res1, a1, w1) \<Rightarrow>
     (case ltc_readRegister h dev ACCUM_CHARGE_LSB_REG adc0 (usleep h 1 w1) of
        (res2, a0, w3) \<Rightarrow>
          (res1 \<and> res2, assemble a1 a0, usleep h 1 w3)))"

text \<open>
  The three measurement reads have one body and differ in the two register numbers.
  \<open>read_pair\<close> is that body with the registers as parameters; it is used to prove
  facts about the three functions once.
\<close>

definition read_pair ::
  "'w hal \<Rightarrow> dev_id \<Rightarrow> uint8_t \<Rightarrow> uint8_t \<Rightarrow> uint8_t \<Rightarrow> uint8_t \<Rightarrow> 'w \<Rightarrow> bool \<times> uint16_t \<times> 'w" where
  "read_pair h dev msb_reg lsb_reg adc0 adc1 w =
     (case ltc_readRegister h dev msb_reg adc1 w of
        (res1, a1, w1) \<Rightarrow>
     (case ltc_readRegister h dev lsb_reg adc0 (usleep h 1 w1) of
        (res2, a0, w3) \<Rightarrow>
          (res1 \<and> res2, assemble a1 a0, usleep h 1 w3)))"

subsection \<open>Observing the calls a driver function makes\<close>

text \<open>
  \<open>traced h\<close> is the platform \<open>h\<close> with a log: every bus transaction and every delay is
  appended to a history, in the order the driver issues them. A transaction is logged
  with the world it met, the bytes sent, the receive buffer before the call, the
  outcome and the receive buffer after the call.
\<close>

datatype 'w event =
    Xfer 'w "uint8_t list" "uint8_t list" bool "uint8_t list"
  | Delay nat

definition traced :: "'w hal \<Rightarrow> ('w \<times> 'w event list) hal" where
  "traced h =
     \<lparr> HAL_I2C_readWrite = (\<lambda>dev tx rx (w, tr).
          case HAL_I2C_readWrite h dev tx rx w of
            (ok, out, w') \<Rightarrow> (ok, out, (w', tr @ [Xfer w tx rx ok out]))),
       usleep = (\<lambda>n (w, tr). (usleep h n w, tr @ [Delay n])) \<rparr>"

definition history :: "bool \<times> 'a \<times> 'w \<times> 'w event list \<Rightarrow> 'w event list" where
  "history r = snd (snd (snd r))"

text \<open>What a logged call looks like from the bus: the bytes sent and the number of bytes asked for.\<close>

datatype step = Bus "uint8_t list" nat | Sleep nat

fun shape :: "'w event \<Rightarrow> step" where
  "shape (Xfer w tx rx ok out) = Bus tx (length rx)"
| "shape (Delay n) = Sleep n"

fun outcomes :: "'w event list \<Rightarrow> bool list" where
  "outcomes [] = []"
| "outcomes (Xfer w tx rx ok out # es) = ok # outcomes es"
| "outcomes (Delay n # es) = outcomes es"

text \<open>The bytes written to register \<open>reg\<close>, in order: the two-byte transactions that name it.\<close>

fun written :: "uint8_t \<Rightarrow> 'w event list \<Rightarrow> uint8_t list" where
  "written reg [] = []"
| "written reg (Xfer w [r, v] rx ok out # es) =
     (if r = reg then v # written reg es else written reg es)"
| "written reg (e # es) = written reg es"

fun is_sleep :: "step \<Rightarrow> bool" where
  "is_sleep (Sleep n) = True"
| "is_sleep (Bus tx n) = False"

text \<open>No two bus transactions follow each other without a delay in between.\<close>

fun delay_separated :: "step list \<Rightarrow> bool" where
  "delay_separated (Bus tx n # Bus tx' n' # ss) = False"
| "delay_separated (s # ss) = delay_separated ss"
| "delay_separated [] = True"

subsection \<open>A chip behind the bus\<close>

text \<open>
  Modelled from the spec: the mock transport of the testable properties, which is not
  part of the driver file. The chip is a byte array indexed by register address. A
  transaction that sends one byte and asks for one byte reads that register; one that
  sends two bytes and asks for none writes the register. \<open>plan\<close> configures failures:
  each transaction consumes one entry, \<open>False\<close> makes it fail without touching the
  registers or the receive buffer, and an empty plan lets every transaction through.
  Delays do nothing to the chip.
\<close>

record chip =
  regs :: "uint8_t list"
  plan :: "bool list"

definition serve :: "uint8_t list \<Rightarrow> uint8_t list \<Rightarrow> chip \<Rightarrow> bool \<times> uint8_t list \<times> chip" where
  "serve tx rx c =
     (case tx of
        [reg] \<Rightarrow>
          if unat reg < length (regs c) \<and> length rx = 1
          then (True, [regs c ! unat reg], c) else (False, rx, c)
      | [reg, v] \<Rightarrow>
          if unat reg < length (regs c) \<and> rx = []
          then (True, rx, c\<lparr>regs := (regs c)[unat reg := v]\<rparr>) else (False, rx, c)
      | _ \<Rightarrow> (False, rx, c))"

definition chip_readWrite ::
  "dev_id \<Rightarrow> uint8_t list \<Rightarrow> uint8_t list \<Rightarrow> chip \<Rightarrow> bool \<times> uint8_t list \<times> chip" where
  "chip_readWrite dev tx rx c =
     (case plan c of
        [] \<Rightarrow> serve tx rx c
      | ok # p \<Rightarrow> if ok then serve tx rx (c\<lparr>plan := p\<rparr>) else (False, rx, c\<lparr>plan := p\<rparr>))"

definition chip_hal :: "chip hal" where
  "chip_hal = \<lparr> HAL_I2C_readWrite = chip_readWrite, usleep = (\<lambda>n c. c) \<rparr>"

definition reg_at :: "chip \<Rightarrow> uint8_t \<Rightarrow> uint8_t" where
  "reg_at c r = regs c ! unat r"

text \<open>A chip with sixteen registers holding the given bytes at addresses 0 to 15.\<close>

definition demo_chip :: "bool list \<Rightarrow> chip" where
  "demo_chip p =
     \<lparr> regs = [0xC1, 0xFC, 0x12, 0x34, 0, 0, 0, 0, 0x12, 0x34, 0, 0, 0xFF, 0x38, 0, 0],
       plan = p \<rparr>"

text \<open>
  A write to one of the two charge-accumulator registers, and the check that such a
  write met a chip whose control register had the shutdown bit set.
\<close>

definition accum_write :: "uint8_t list \<Rightarrow> bool" where
  "accum_write tx =
     (case tx of
        [reg, v] \<Rightarrow> reg = ACCUM_CHARGE_MSB_REG \<or> reg = ACCUM_CHARGE_LSB_REG
      | _ \<Rightarrow> False)"

fun in_shutdown :: "chip event \<Rightarrow> bool" where
  "in_shutdown (Xfer c tx rx ok out) =
     (if accum_write tx then shutdown_field (reg_at c CONTROL_REG) = SHUTDOWN_MODE else True)"
| "in_shutdown (Delay n) = True"

section \<open>Properties\<close>

subsection \<open>Assembling two bytes\<close>

lemma assemble_eq: "assemble m l = push_bit 8 (ucast m) OR ucast l"
  unfolding assemble_def
  apply (rule bit_word_eqI)
  apply (auto simp: bit_simps)
  done

lemma assemble_add: "assemble m l = push_bit 8 (ucast m) + ucast l"
proof -
  have "push_bit 8 (ucast m :: uint16_t) + ucast l = push_bit 8 (ucast m) OR ucast l"
    by (rule disjunctive_add) (auto simp: bit_simps dest: bit_imp_le_length)
  then show ?thesis by (simp add: assemble_eq)
qed

lemma uint_byte: "uint (b :: uint8_t) < 256"
  using uint_bounded [of b] by simp

lemma uint_assemble: "uint (assemble m l) = 256 * uint m + uint l"
proof -
  have m: "uint (ucast m :: uint16_t) = uint m" and l: "uint (ucast l :: uint16_t) = uint l"
    by (simp_all add: uint_up_ucast is_up)
  have "uint (assemble m l) = (uint m * 256 + uint l) mod 65536"
    by (simp add: assemble_add push_bit_eq_mult uint_word_ariths m l mod_simps)
  moreover have "uint m * 256 + uint l < 65536" "0 \<le> uint m * 256 + uint l"
    using uint_byte [of m] uint_byte [of l] by simp_all
  ultimately show ?thesis by simp
qed

lemma sint_assemble_neg:
  assumes "0x80 \<le> m"
  shows "sint (assemble m l) = 256 * uint m + uint l - 65536"
proof -
  let ?k = "256 * uint m + uint l"
  have "128 \<le> uint m" using assms by (simp add: word_le_def)
  then have lo: "32768 \<le> ?k" using uint_ge_0 [of l] by linarith
  have hi: "?k < 65536" using uint_byte [of m] uint_byte [of l] by linarith
  have "(?k + 32768) mod 65536 = ?k + 32768 - 65536"
    using lo hi by (simp add: mod_pos_geq)
  then have "signed_take_bit 15 ?k = ?k - 65536"
    by (simp add: signed_take_bit_eq_take_bit_shift take_bit_eq_mod)
  then show ?thesis
    by (simp add: sint_uint uint_assemble)
qed

lemma sint_assemble_pos:
  assumes "m < 0x80"
  shows "sint (assemble m l) = 256 * uint m + uint l"
proof -
  let ?k = "256 * uint m + uint l"
  have "uint m < 128" using assms by (simp add: word_less_def)
  then have hi: "?k < 32768" using uint_byte [of l] by linarith
  have lo: "0 \<le> ?k" using uint_ge_0 [of l] uint_ge_0 [of m] by linarith
  have "signed_take_bit 15 ?k = ?k"
    using lo hi by (simp add: signed_take_bit_eq_take_bit_shift take_bit_eq_mod)
  then show ?thesis
    by (simp add: sint_uint uint_assemble)
qed


subsection \<open>What the log records\<close>

lemma voltage_read_pair:
  "ltc_code_to_voltage h dev = read_pair h dev VOLTAGE_MSB_REG VOLTAGE_LSB_REG"
  by (intro ext) (simp add: ltc_code_to_voltage_def read_pair_def)

lemma temp_read_pair:
  "ltc_temp h dev = read_pair h dev TEMPERATURE_MSB_REG TEMPERATURE_LSB_REG"
  by (intro ext) (simp add: ltc_temp_def read_pair_def)

lemma capacity_read_pair:
  "ltc_capacity h dev = read_pair h dev ACCUM_CHARGE_MSB_REG ACCUM_CHARGE_LSB_REG"
  by (intro ext) (simp add: ltc_capacity_def read_pair_def)

lemmas measurement_read_pair = voltage_read_pair temp_read_pair capacity_read_pair

lemma traced_readWrite:
  "HAL_I2C_readWrite (traced h) dev tx rx (w, tr) =
     (case HAL_I2C_readWrite h dev tx rx w of
        (ok, out, w') \<Rightarrow> (ok, out, (w', tr @ [Xfer w tx rx ok out])))"
  by (simp add: traced_def)

lemma traced_usleep: "usleep (traced h) n (w, tr) = (usleep h n w, tr @ [Delay n])"
  by (simp add: traced_def)

lemma traced_read:
  "ltc_readRegister (traced h) dev r x (w, tr) =
     (case HAL_I2C_readWrite h dev [r] [x] w of
        (ok, out, w') \<Rightarrow> (ok, stored x out, (w', tr @ [Xfer w [r] [x] ok out])))"
  by (simp add: ltc_readRegister_def traced_readWrite split: prod.splits)

lemma traced_write:
  "ltc_writeRegister (traced h) dev r v (w, tr) =
     (case HAL_I2C_readWrite h dev [r, v] [] w of
        (ok, out, w') \<Rightarrow> (ok, (w', tr @ [Xfer w [r, v] [] ok out])))"
  by (simp add: ltc_writeRegister_def traced_readWrite split: prod.splits)

lemma read_pair_traced:
  assumes "HAL_I2C_readWrite h dev [rm] [a1] w = (ok1, out1, w1)"
    and "HAL_I2C_readWrite h dev [rl] [a0] (usleep h 1 w1) = (ok2, out2, w3)"
  shows "read_pair (traced h) dev rm rl a0 a1 (w, tr) =
           (ok1 \<and> ok2, assemble (stored a1 out1) (stored a0 out2),
            (usleep h 1 w3,
             tr @ [Xfer w [rm] [a1] ok1 out1, Delay 1,
                   Xfer (usleep h 1 w1) [rl] [a0] ok2 out2, Delay 1]))"
    and "read_pair h dev rm rl a0 a1 w =
           (ok1 \<and> ok2, assemble (stored a1 out1) (stored a0 out2), usleep h 1 w3)"
proof -
  show "read_pair (traced h) dev rm rl a0 a1 (w, tr) =
           (ok1 \<and> ok2, assemble (stored a1 out1) (stored a0 out2),
            (usleep h 1 w3,
             tr @ [Xfer w [rm] [a1] ok1 out1, Delay 1,
                   Xfer (usleep h 1 w1) [rl] [a0] ok2 out2, Delay 1]))"
    using assms by (simp add: read_pair_def traced_read traced_usleep)
  show "read_pair h dev rm rl a0 a1 w =
           (ok1 \<and> ok2, assemble (stored a1 out1) (stored a0 out2), usleep h 1 w3)"
    using assms by (simp add: read_pair_def ltc_readRegister_def)
qed

lemma read_pair_flag:
  "length (outcomes (history (read_pair (traced h) dev rm rl a0 a1 (w, [])))) = 2 \<and>
   fst (read_pair h dev rm rl a0 a1 w) =
     list_all (\<lambda>ok. ok) (outcomes (history (read_pair (traced h) dev rm rl a0 a1 (w, []))))"
proof -
  obtain ok1 out1 w1 where 1: "HAL_I2C_readWrite h dev [rm] [a1] w = (ok1, out1, w1)"
    by (cases "HAL_I2C_readWrite h dev [rm] [a1] w")
  obtain ok2 out2 w3 where 2: "HAL_I2C_readWrite h dev [rl] [a0] (usleep h 1 w1) = (ok2, out2, w3)"
    by (cases "HAL_I2C_readWrite h dev [rl] [a0] (usleep h 1 w1)")
  show ?thesis
    by (simp add: read_pair_traced [OF 1 2] history_def)
qed

lemma read_pair_shape:
  "map shape (history (read_pair (traced h) dev rm rl a0 a1 (w, []))) =
     [Bus [rm] 1, Sleep 1, Bus [rl] 1, Sleep 1]"
proof -
  obtain ok1 out1 w1 where 1: "HAL_I2C_readWrite h dev [rm] [a1] w = (ok1, out1, w1)"
    by (cases "HAL_I2C_readWrite h dev [rm] [a1] w")
  obtain ok2 out2 w3 where 2: "HAL_I2C_readWrite h dev [rl] [a0] (usleep h 1 w1) = (ok2, out2, w3)"
    by (cases "HAL_I2C_readWrite h dev [rl] [a0] (usleep h 1 w1)")
  show ?thesis
    by (simp add: read_pair_traced [OF 1 2] history_def)
qed

subsection \<open>The chip behind the driver\<close>

lemma chip_rw_read:
  "unat r < length (regs c) \<Longrightarrow> plan c = [] \<Longrightarrow>
   HAL_I2C_readWrite chip_hal dev [r] [x] c = (True, [reg_at c r], c)"
  by (simp add: chip_hal_def chip_readWrite_def serve_def reg_at_def)

lemma chip_rw_write:
  "unat r < length (regs c) \<Longrightarrow> plan c = [] \<Longrightarrow>
   HAL_I2C_readWrite chip_hal dev [r, v] [] c = (True, [], c\<lparr>regs := (regs c)[unat r := v]\<rparr>)"
  by (simp add: chip_hal_def chip_readWrite_def serve_def)

lemma chip_rw_read_planned:
  "unat r < length (regs c) \<Longrightarrow> plan c = ok # p \<Longrightarrow>
   HAL_I2C_readWrite chip_hal dev [r] [x] c =
     (ok, if ok then [reg_at c r] else [x], c\<lparr>plan := p\<rparr>)"
  by (simp add: chip_hal_def chip_readWrite_def serve_def reg_at_def)

lemma chip_usleep: "usleep chip_hal n c = c"
  by (simp add: chip_hal_def)

lemma chip_read:
  "unat r < length (regs c) \<Longrightarrow> plan c = [] \<Longrightarrow>
   ltc_readRegister chip_hal dev r x c = (True, reg_at c r, c)"
  by (simp add: ltc_readRegister_def chip_rw_read stored_def)

lemma chip_write:
  "unat r < length (regs c) \<Longrightarrow> plan c = [] \<Longrightarrow>
   ltc_writeRegister chip_hal dev r v c = (True, c\<lparr>regs := (regs c)[unat r := v]\<rparr>)"
  by (simp add: ltc_writeRegister_def chip_rw_write)

lemma chip_read_planned:
  "unat r < length (regs c) \<Longrightarrow> plan c = ok # p \<Longrightarrow>
   ltc_readRegister chip_hal dev r x c = (ok, if ok then reg_at c r else x, c\<lparr>plan := p\<rparr>)"
  by (simp add: ltc_readRegister_def chip_rw_read_planned stored_def)

lemma reg_numbers:
  "unat STATUS_REG = 0" "unat CONTROL_REG = 1"
  "unat ACCUM_CHARGE_MSB_REG = 2" "unat ACCUM_CHARGE_LSB_REG = 3"
  "unat VOLTAGE_MSB_REG = 8" "unat VOLTAGE_LSB_REG = 9"
  "unat TEMPERATURE_MSB_REG = 12" "unat TEMPERATURE_LSB_REG = 13"
  by (simp_all add: STATUS_REG_def CONTROL_REG_def ACCUM_CHARGE_MSB_REG_def
      ACCUM_CHARGE_LSB_REG_def VOLTAGE_MSB_REG_def VOLTAGE_LSB_REG_def
      TEMPERATURE_MSB_REG_def TEMPERATURE_LSB_REG_def)

lemma chip_read_pair:
  assumes "unat rm < length (regs c)" "unat rl < length (regs c)" "plan c = []"
  shows "read_pair chip_hal dev rm rl a0 a1 c = (True, assemble (reg_at c rm) (reg_at c rl), c)"
  using assms by (simp add: read_pair_def chip_read chip_usleep)

lemma chip_read_pair_planned:
  assumes "unat rm < length (regs c)" "unat rl < length (regs c)" "plan c = [ok1, ok2]"
  shows "read_pair chip_hal dev rm rl a0 a1 c =
           (ok1 \<and> ok2,
            assemble (if ok1 then reg_at c rm else a1) (if ok2 then reg_at c rl else a0),
            c\<lparr>plan := []\<rparr>)"
  using assms by (simp add: read_pair_def chip_read_planned chip_usleep reg_at_def)

lemma chip_reset:
  assumes "length (regs c) = 16" "plan c = []"
  shows "ltc_reset_charge chip_hal dev c =
           c\<lparr>regs := (regs c)[1 := reg_at c CONTROL_REG OR SHUTDOWN_MODE, 2 := 0, 3 := 0,
                               1 := reg_at c CONTROL_REG]\<rparr>"
  using assms by (simp add: ltc_reset_charge_def chip_read chip_write reg_numbers)

lemma chip_reset_traced:
  assumes "length (regs c) = 16" "plan c = []"
  shows "snd (ltc_reset_charge (traced chip_hal) dev (c, [])) =
    [Xfer c [CONTROL_REG] [0] True [reg_at c CONTROL_REG],
     Xfer c [CONTROL_REG, reg_at c CONTROL_REG OR SHUTDOWN_MODE] [] True [],
     Xfer (c\<lparr>regs := (regs c)[1 := reg_at c CONTROL_REG OR SHUTDOWN_MODE]\<rparr>)
       [ACCUM_CHARGE_MSB_REG, 0] [] True [],
     Xfer (c\<lparr>regs := (regs c)[1 := reg_at c CONTROL_REG OR SHUTDOWN_MODE, 2 := 0]\<rparr>)
       [ACCUM_CHARGE_LSB_REG, 0] [] True [],
     Xfer (c\<lparr>regs := (regs c)[1 := reg_at c CONTROL_REG OR SHUTDOWN_MODE, 2 := 0, 3 := 0]\<rparr>)
       [CONTROL_REG, reg_at c CONTROL_REG] [] True []]"
  using assms
  by (simp add: ltc_reset_charge_def traced_read traced_write chip_rw_read chip_rw_write
      reg_numbers stored_def)

lemma reset_shape:
  "\<exists>s. map shape (snd (ltc_reset_charge (traced h) dev (w, []))) =
     [Bus [CONTROL_REG] 1, Bus [CONTROL_REG, s OR SHUTDOWN_MODE] 0,
      Bus [ACCUM_CHARGE_MSB_REG, 0] 0, Bus [ACCUM_CHARGE_LSB_REG, 0] 0,
      Bus [CONTROL_REG, s] 0]"
  by (simp add: ltc_reset_charge_def traced_read traced_write split: prod.splits)

lemma init_shape:
  "map shape (snd (ltc_init (traced h) dev (w, []))) = [Bus [CONTROL_REG, 0xC8] 0, Sleep 1]"
  by (simp add: ltc_init_def traced_write traced_usleep split: prod.splits)

lemma reset_shape_saved:
  "map shape (snd (ltc_reset_charge (traced h) dev (w, []))) =
     [Bus [CONTROL_REG] 1,
      Bus [CONTROL_REG, fst (snd (ltc_readRegister h dev CONTROL_REG 0 w)) OR SHUTDOWN_MODE] 0,
      Bus [ACCUM_CHARGE_MSB_REG, 0x00] 0,
      Bus [ACCUM_CHARGE_LSB_REG, 0x00] 0,
      Bus [CONTROL_REG, fst (snd (ltc_readRegister h dev CONTROL_REG 0 w))] 0]"
proof -
  obtain ok out w1 where r: "HAL_I2C_readWrite h dev [CONTROL_REG] [0] w = (ok, out, w1)"
    by (cases "HAL_I2C_readWrite h dev [CONTROL_REG] [0] w")
  then have s: "fst (snd (ltc_readRegister h dev CONTROL_REG 0 w)) = stored 0 out"
    by (simp add: ltc_readRegister_def)
  show ?thesis
    unfolding s
    by (simp add: ltc_reset_charge_def traced_read traced_write r split: prod.splits)
qed

lemma init_written:
  "written CONTROL_REG (snd (ltc_init (traced h) dev (w, []))) = [0xC8]"
  by (simp add: ltc_init_def traced_write traced_usleep split: prod.splits)

lemma demo_chip_ok: "length (regs (demo_chip p)) = 16" "plan (demo_chip p) = p"
  by (simp_all add: demo_chip_def)

lemma demo_chip_regs:
  "reg_at (demo_chip p) STATUS_REG = 0xC1" "reg_at (demo_chip p) CONTROL_REG = 0xFC"
  "reg_at (demo_chip p) ACCUM_CHARGE_MSB_REG = 0x12" "reg_at (demo_chip p) ACCUM_CHARGE_LSB_REG = 0x34"
  "reg_at (demo_chip p) VOLTAGE_MSB_REG = 0x12" "reg_at (demo_chip p) VOLTAGE_LSB_REG = 0x34"
  "reg_at (demo_chip p) TEMPERATURE_MSB_REG = 0xFF" "reg_at (demo_chip p) TEMPERATURE_LSB_REG = 0x38"
  by (simp_all add: demo_chip_def reg_at_def reg_numbers)

lemma identify_reads_top_bits:
  assumes "regs c \<noteq> []" "plan c = []"
  shows "fst (ltc_readDeviceID chip_hal dev c) = (reg_at c STATUS_REG AND 0xC0 = DEVICE_ID)"
  using assms by (simp add: ltc_readDeviceID_def chip_read reg_numbers)

lemma identify_untouched_buffer:
  assumes "HAL_I2C_readWrite h dev [STATUS_REG] [0] w = (ok, [0], w')"
  shows "ltc_readDeviceID h dev w = (True, w')"
  using assms by (simp add: ltc_readDeviceID_def ltc_readRegister_def stored_def DEVICE_ID_def)

lemma init_prescaler: "prescaler_field 0xC8 = PRESCALAR_M_2"
  by (simp add: prescaler_field_def PRESCALAR_M_1_def PRESCALAR_M_2_def
      PRESCALAR_M_4_def PRESCALAR_M_8_def PRESCALAR_M_16_def PRESCALAR_M_32_def
      PRESCALAR_M_64_def PRESCALAR_M_128_def)

subsection \<open>The claims\<close>

text \<open>
  C1 (device identification). On a successful read \<open>ltc_readDeviceID\<close> answers by the top
  two bits of the status register alone (\<open>identify_reads_top_bits\<close>). The claim also
  asks for the answer false whenever the register read fails. The function drops the
  outcome of the read: on a chip whose status register holds 0xC1 (top bits set, so not
  the identification pattern) a failed read leaves the byte at its initial 0 and the
  function answers true, while the same chip read successfully answers false.
\<close>

theorem identify_accepts_failed_read:
  "ltc_readRegister chip_hal 0 STATUS_REG 0 (demo_chip [False]) = (False, 0, demo_chip []) \<and>
   ltc_readDeviceID chip_hal 0 (demo_chip [False]) = (True, demo_chip []) \<and>
   ltc_readDeviceID chip_hal 0 (demo_chip []) = (False, demo_chip [])"
  by (simp add: ltc_readDeviceID_def ltc_readRegister_def chip_hal_def chip_readWrite_def
      serve_def stored_def demo_chip_def STATUS_REG_def DEVICE_ID_def)

text \<open>
  C2. For each of the three measurement operations (\<open>ltc_code_to_voltage\<close>, \<open>ltc_temp\<close>,
  \<open>ltc_capacity\<close>) and every platform, the operation performs exactly two bus
  transactions, and the flag it returns is the conjunction of the two outcomes the
  platform reported: it is true only when both register reads succeeded.
\<close>

theorem measurement_flag_is_conjunction:
  "(length (outcomes (history (ltc_code_to_voltage (traced h) dev a0 a1 (w, [])))) = 2 \<and>
    fst (ltc_code_to_voltage h dev a0 a1 w) =
      list_all (\<lambda>ok. ok) (outcomes (history (ltc_code_to_voltage (traced h) dev a0 a1 (w, []))))) \<and>
   (length (outcomes (history (ltc_temp (traced h) dev a0 a1 (w, [])))) = 2 \<and>
    fst (ltc_temp h dev a0 a1 w) =
      list_all (\<lambda>ok. ok) (outcomes (history (ltc_temp (traced h) dev a0 a1 (w, []))))) \<and>
   (length (outcomes (history (ltc_capacity (traced h) dev a0 a1 (w, [])))) = 2 \<and>
    fst (ltc_capacity h dev a0 a1 w) =
      list_all (\<lambda>ok. ok) (outcomes (history (ltc_capacity (traced h) dev a0 a1 (w, [])))))"
  unfolding measurement_read_pair
  by (intro conjI read_pair_flag [THEN conjunct1] read_pair_flag [THEN conjunct2])

text \<open>
  C3, as stated, fails: the byte \<open>ltc_init\<close> leaves in the control register has the
  prescaler field of M = 2, not of M = 4, and its ALCC field is not the charge-complete
  code.
\<close>

theorem init_control_byte_counterexample:
  "prescaler_field (reg_at (ltc_init chip_hal 0 (demo_chip [])) CONTROL_REG) = PRESCALAR_M_2 \<and>
   prescaler_field (reg_at (ltc_init chip_hal 0 (demo_chip [])) CONTROL_REG) \<noteq> PRESCALAR_M_4 \<and>
   alcc_field (reg_at (ltc_init chip_hal 0 (demo_chip [])) CONTROL_REG) \<noteq> CHARGE_COMPLETE_MODE"
proof -
  have "reg_at (ltc_init chip_hal 0 (demo_chip [])) CONTROL_REG = 0xC8"
    by (simp add: ltc_init_def chip_write chip_usleep reg_numbers demo_chip_def reg_at_def)
  then show ?thesis
    by (simp add: prescaler_field_def alcc_field_def PRESCALAR_M_1_def PRESCALAR_M_2_def
        PRESCALAR_M_4_def PRESCALAR_M_8_def PRESCALAR_M_16_def PRESCALAR_M_32_def
        PRESCALAR_M_64_def PRESCALAR_M_128_def ALERT_MODE_def CHARGE_COMPLETE_MODE_def
        DISABLE_ALCC_PIN_def)
qed

text \<open>
  C3, amended. \<open>ltc_init\<close> writes to the control register a single fixed byte, the same
  on every platform, whose fields under the control-register encoding select automatic
  mode, have the ALCC pin disabled (neither alert nor charge-complete mode) and have the
  shutdown bit clear. Nothing is said about the prescaler field.
\<close>

theorem init_control_byte:
  "\<exists>b. (\<forall>(h :: 'w hal) dev w.
            written CONTROL_REG (snd (ltc_init (traced h) dev (w, []))) = [b]) \<and>
        mode_field b = AUTOMATIC_MODE \<and>
        alcc_field b = DISABLE_ALCC_PIN \<and>
        shutdown_field b = 0"
proof (intro exI conjI allI)
  show "written CONTROL_REG (snd (ltc_init (traced h) dev (w, []))) = [0xC8]"
    for h :: "'w hal" and dev w
    by (rule init_written)
  show "mode_field 0xC8 = AUTOMATIC_MODE"
    by (simp add: mode_field_def AUTOMATIC_MODE_def MANUAL_VOLTAGE_def
        MANUAL_TEMPERATURE_def SLEEP_MODE_def)
  show "alcc_field 0xC8 = DISABLE_ALCC_PIN"
    by (simp add: alcc_field_def ALERT_MODE_def CHARGE_COMPLETE_MODE_def DISABLE_ALCC_PIN_def)
  show "shutdown_field 0xC8 = 0"
    by (simp add: shutdown_field_def SHUTDOWN_MODE_def)
qed

text \<open>
  C4, as stated, fails: in the reset sequence register accesses follow each other with
  no delay in between.
\<close>

theorem reset_delay_counterexample:
  "\<not> delay_separated (map shape (snd (ltc_reset_charge (traced chip_hal) 0 (demo_chip [], []))))"
proof -
  have "length (regs (demo_chip [])) = 16" "plan (demo_chip []) = []"
    by (simp_all add: demo_chip_def)
  then show ?thesis
    by (simp add: chip_reset_traced)
qed

text \<open>
  C4, amended. On every platform, each of the three measurement reads invokes the delay
  between its MSB register access and its LSB register access (no two of its bus
  transactions are adjacent); \<open>ltc_reset_charge\<close> performs its five register accesses
  and never invokes the delay.
\<close>

theorem delay_between_measurement_reads:
  "delay_separated (map shape (history (ltc_code_to_voltage (traced h) dev a0 a1 (w, [])))) \<and>
   delay_separated (map shape (history (ltc_temp (traced h) dev a0 a1 (w, [])))) \<and>
   delay_separated (map shape (history (ltc_capacity (traced h) dev a0 a1 (w, [])))) \<and>
   length (snd (ltc_reset_charge (traced h) dev (w, []))) = 5 \<and>
   filter is_sleep (map shape (snd (ltc_reset_charge (traced h) dev (w, [])))) = []"
proof -
  obtain s where "map shape (snd (ltc_reset_charge (traced h) dev (w, []))) =
     [Bus [CONTROL_REG] 1, Bus [CONTROL_REG, s OR SHUTDOWN_MODE] 0,
      Bus [ACCUM_CHARGE_MSB_REG, 0] 0, Bus [ACCUM_CHARGE_LSB_REG, 0] 0,
      Bus [CONTROL_REG, s] 0]"
    using reset_shape [of h dev w] by (elim exE)
  then have "filter is_sleep (map shape (snd (ltc_reset_charge (traced h) dev (w, [])))) = []"
    and "length (map shape (snd (ltc_reset_charge (traced h) dev (w, [])))) = 5"
    by simp_all
  then show ?thesis
    by (simp add: measurement_read_pair read_pair_shape)
qed

text \<open>
  C5. For every initial control-register value, running \<open>ltc_reset_charge\<close> against a
  sixteen-register chip whose transport always succeeds leaves the charge-accumulator
  MSB and LSB registers at 0x00 and the control register at exactly its initial value,
  shutdown bit included.
\<close>

theorem reset_clears_charge_keeps_control:
  assumes "length (regs c) = 16" and "plan c = []"
  shows "reg_at (ltc_reset_charge chip_hal dev c) ACCUM_CHARGE_MSB_REG = 0x00 \<and>
         reg_at (ltc_reset_charge chip_hal dev c) ACCUM_CHARGE_LSB_REG = 0x00 \<and>
         reg_at (ltc_reset_charge chip_hal dev c) CONTROL_REG = reg_at c CONTROL_REG \<and>
         shutdown_field (reg_at (ltc_reset_charge chip_hal dev c) CONTROL_REG) =
           shutdown_field (reg_at c CONTROL_REG)"
  using assms by (simp add: chip_reset reg_at_def reg_numbers)

theorem reset_clears_charge_keeps_control_witness:
  "length (regs (demo_chip [])) = 16 \<and> plan (demo_chip []) = [] \<and>
   reg_at (demo_chip []) ACCUM_CHARGE_MSB_REG = 0x12 \<and>
   reg_at (demo_chip []) ACCUM_CHARGE_LSB_REG = 0x34 \<and>
   reg_at (ltc_reset_charge chip_hal 0 (demo_chip [])) ACCUM_CHARGE_MSB_REG = 0x00 \<and>
   reg_at (ltc_reset_charge chip_hal 0 (demo_chip [])) ACCUM_CHARGE_LSB_REG = 0x00 \<and>
   reg_at (ltc_reset_charge chip_hal 0 (demo_chip [])) CONTROL_REG = 0xFC"
proof -
  have h: "length (regs (demo_chip [])) = 16" "plan (demo_chip []) = []"
    by (simp_all add: demo_chip_def)
  have "reg_at (demo_chip []) CONTROL_REG = 0xFC"
       "reg_at (demo_chip []) ACCUM_CHARGE_MSB_REG = 0x12"
       "reg_at (demo_chip []) ACCUM_CHARGE_LSB_REG = 0x34"
    by (simp_all add: demo_chip_def reg_at_def reg_numbers)
  then show ?thesis
    using h reset_clears_charge_keeps_control [OF h, of 0] by simp
qed

text \<open>
  C6. Each of the three measurement operations returns \<open>(MSB << 8) | LSB\<close> of the two
  register bytes as a 16-bit value, MSB first; for the bytes 0x12 and 0x34 the assembled
  value is 0x1234.
\<close>

theorem measurements_assemble_big_endian:
  assumes "length (regs c) = 16" and "plan c = []"
  shows "fst (snd (ltc_code_to_voltage chip_hal dev a0 a1 c)) =
           push_bit 8 (ucast (reg_at c VOLTAGE_MSB_REG)) OR ucast (reg_at c VOLTAGE_LSB_REG) \<and>
         fst (snd (ltc_temp chip_hal dev a0 a1 c)) =
           push_bit 8 (ucast (reg_at c TEMPERATURE_MSB_REG)) OR ucast (reg_at c TEMPERATURE_LSB_REG) \<and>
         fst (snd (ltc_capacity chip_hal dev a0 a1 c)) =
           push_bit 8 (ucast (reg_at c ACCUM_CHARGE_MSB_REG)) OR ucast (reg_at c ACCUM_CHARGE_LSB_REG) \<and>
         assemble 0x12 0x34 = 0x1234"
  using assms
  by (simp add: measurement_read_pair chip_read_pair reg_numbers assemble_eq [symmetric])
     (simp add: assemble_def)

theorem measurements_assemble_big_endian_witness:
  "length (regs (demo_chip [])) = 16 \<and> plan (demo_chip []) = [] \<and>
   reg_at (demo_chip []) VOLTAGE_MSB_REG = 0x12 \<and> reg_at (demo_chip []) VOLTAGE_LSB_REG = 0x34 \<and>
   fst (snd (ltc_code_to_voltage chip_hal 0 0 0 (demo_chip []))) = 0x1234 \<and>
   fst (snd (ltc_temp chip_hal 0 0 0 (demo_chip []))) = 0xFF38 \<and>
   fst (snd (ltc_capacity chip_hal 0 0 0 (demo_chip []))) = 0x1234"
proof -
  have h: "length (regs (demo_chip [])) = 16" "plan (demo_chip []) = []"
    by (simp_all add: demo_chip_ok)
  show ?thesis
    using h measurements_assemble_big_endian [OF h, of 0 0 0]
    by (simp add: demo_chip_regs)
qed

text \<open>
  C7. During \<open>ltc_reset_charge\<close> on a transport that succeeds, the bus sees, in this
  order, the read of the control register, the write that sets the shutdown bit, the
  writes of 0x00 to the accumulator MSB and LSB registers, and the write that restores
  the control register; every write to an accumulator register meets a chip whose
  control register has the shutdown bit set.
\<close>

theorem reset_writes_accumulator_in_shutdown:
  assumes "length (regs c) = 16" and "plan c = []"
  shows "map shape (snd (ltc_reset_charge (traced chip_hal) dev (c, []))) =
           [Bus [CONTROL_REG] 1,
            Bus [CONTROL_REG, reg_at c CONTROL_REG OR SHUTDOWN_MODE] 0,
            Bus [ACCUM_CHARGE_MSB_REG, 0x00] 0,
            Bus [ACCUM_CHARGE_LSB_REG, 0x00] 0,
            Bus [CONTROL_REG, reg_at c CONTROL_REG] 0] \<and>
         list_all in_shutdown (snd (ltc_reset_charge (traced chip_hal) dev (c, []))) \<and>
         outcomes (snd (ltc_reset_charge (traced chip_hal) dev (c, []))) =
           [True, True, True, True, True]"
proof -
  have "shutdown_field (x OR SHUTDOWN_MODE) = SHUTDOWN_MODE" for x
    by (simp add: shutdown_field_def SHUTDOWN_MODE_def)
  then show ?thesis
    using assms
    by (simp add: chip_reset_traced reg_at_def reg_numbers accum_write_def
        CONTROL_REG_def ACCUM_CHARGE_MSB_REG_def ACCUM_CHARGE_LSB_REG_def)
qed

theorem reset_writes_accumulator_in_shutdown_witness:
  "length (regs (demo_chip [])) = 16 \<and> plan (demo_chip []) = [] \<and>
   map shape (snd (ltc_reset_charge (traced chip_hal) 0 (demo_chip [], []))) =
     [Bus [0x01] 1, Bus [0x01, 0xFD] 0, Bus [0x02, 0x00] 0, Bus [0x03, 0x00] 0,
      Bus [0x01, 0xFC] 0] \<and>
   list_all in_shutdown (snd (ltc_reset_charge (traced chip_hal) 0 (demo_chip [], [])))"
proof -
  have h: "length (regs (demo_chip [])) = 16" "plan (demo_chip []) = []"
    by (simp_all add: demo_chip_ok)
  note run = reset_writes_accumulator_in_shutdown [OF h, of 0, unfolded demo_chip_regs]
  then show ?thesis
    using h
    by (simp add: CONTROL_REG_def ACCUM_CHARGE_MSB_REG_def
        ACCUM_CHARGE_LSB_REG_def SHUTDOWN_MODE_def)
qed

text \<open>
  C8. For every register address \<open>r\<close> inside the chip's byte array and every byte \<open>v\<close>,
  \<open>ltc_writeRegister\<close> of \<open>v\<close> to \<open>r\<close> followed by \<open>ltc_readRegister\<close> of \<open>r\<close> succeeds and
  returns \<open>v\<close>.
\<close>

theorem write_then_read:
  assumes "unat r < length (regs c)" and "plan c = []"
  shows "fst (ltc_writeRegister chip_hal dev r v c) = True \<and>
         ltc_readRegister chip_hal dev r x (snd (ltc_writeRegister chip_hal dev r v c)) =
           (True, v, snd (ltc_writeRegister chip_hal dev r v c))"
  using assms by (simp add: chip_write chip_read reg_at_def)

theorem write_then_read_witness:
  "unat (0x0F :: uint8_t) < length (regs (demo_chip [])) \<and> plan (demo_chip []) = [] \<and>
   ltc_readRegister chip_hal 0 0x0F 0 (snd (ltc_writeRegister chip_hal 0 0x0F 0xA5 (demo_chip []))) =
     (True, 0xA5, snd (ltc_writeRegister chip_hal 0 0x0F 0xA5 (demo_chip [])))"
proof -
  have h: "unat (0x0F :: uint8_t) < length (regs (demo_chip []))" "plan (demo_chip []) = []"
    by (simp_all add: demo_chip_ok)
  show ?thesis
    using h write_then_read [OF h, of 0 "0xA5" 0] by simp
qed

text \<open>
  C9. Whatever the outcomes of the bus transactions, every measurement operation runs
  its whole sequence (MSB read, delay, LSB read, delay) and \<open>ltc_reset_charge\<close> makes all
  five of its register accesses in order: the read of the control register, the write
  of the byte the read left in \<open>reg_save\<close> with the shutdown bit set, the two writes of
  0x00 to the accumulator registers, and the write of \<open>reg_save\<close> back to the control
  register. On a chip whose two reads are planned to succeed or
  fail in any combination, each measurement operation still returns the value assembled
  from the two bytes its buffer then holds (the register byte for a read that succeeded,
  the byte the buffer held before for a read that failed) together with the combined
  flag.
\<close>

theorem no_early_abort:
  assumes "length (regs c) = 16" and "plan c = [ok1, ok2]"
  shows "map shape (history (ltc_code_to_voltage (traced h) dev a0 a1 (w, []))) =
           [Bus [VOLTAGE_MSB_REG] 1, Sleep 1, Bus [VOLTAGE_LSB_REG] 1, Sleep 1] \<and>
         map shape (history (ltc_temp (traced h) dev a0 a1 (w, []))) =
           [Bus [TEMPERATURE_MSB_REG] 1, Sleep 1, Bus [TEMPERATURE_LSB_REG] 1, Sleep 1] \<and>
         map shape (history (ltc_capacity (traced h) dev a0 a1 (w, []))) =
           [Bus [ACCUM_CHARGE_MSB_REG] 1, Sleep 1, Bus [ACCUM_CHARGE_LSB_REG] 1, Sleep 1] \<and>
         map shape (snd (ltc_reset_charge (traced h) dev (w, []))) =
           [Bus [CONTROL_REG] 1,
            Bus [CONTROL_REG, fst (snd (ltc_readRegister h dev CONTROL_REG 0 w)) OR SHUTDOWN_MODE] 0,
            Bus [ACCUM_CHARGE_MSB_REG, 0x00] 0,
            Bus [ACCUM_CHARGE_LSB_REG, 0x00] 0,
            Bus [CONTROL_REG, fst (snd (ltc_readRegister h dev CONTROL_REG 0 w))] 0] \<and>
         ltc_code_to_voltage chip_hal dev a0 a1 c =
           (ok1 \<and> ok2,
            assemble (if ok1 then reg_at c VOLTAGE_MSB_REG else a1)
                     (if ok2 then reg_at c VOLTAGE_LSB_REG else a0),
            c\<lparr>plan := []\<rparr>) \<and>
         ltc_temp chip_hal dev a0 a1 c =
           (ok1 \<and> ok2,
            assemble (if ok1 then reg_at c TEMPERATURE_MSB_REG else a1)
                     (if ok2 then reg_at c TEMPERATURE_LSB_REG else a0),
            c\<lparr>plan := []\<rparr>) \<and>
         ltc_capacity chip_hal dev a0 a1 c =
           (ok1 \<and> ok2,
            assemble (if ok1 then reg_at c ACCUM_CHARGE_MSB_REG else a1)
                     (if ok2 then reg_at c ACCUM_CHARGE_LSB_REG else a0),
            c\<lparr>plan := []\<rparr>)"
  using assms
  by (simp add: measurement_read_pair read_pair_shape reset_shape_saved
      chip_read_pair_planned reg_numbers)

theorem no_early_abort_witness:
  "length (regs (demo_chip [False, True])) = 16 \<and> plan (demo_chip [False, True]) = [False, True] \<and>
   ltc_code_to_voltage chip_hal 0 0x77 0x99 (demo_chip [False, True]) = (False, 0x9934, demo_chip []) \<and>
   ltc_temp chip_hal 0 0x77 0x99 (demo_chip [False, True]) = (False, 0x9938, demo_chip []) \<and>
   ltc_capacity chip_hal 0 0x77 0x99 (demo_chip [False, True]) = (False, 0x9934, demo_chip []) \<and>
   map shape (history (ltc_code_to_voltage (traced chip_hal) 0 0x77 0x99 (demo_chip [False, True], []))) =
     [Bus [0x08] 1, Sleep 1, Bus [0x09] 1, Sleep 1] \<and>
   outcomes (snd (ltc_reset_charge (traced chip_hal) 0 (demo_chip [False, True], []))) =
     [False, True, True, True, True] \<and>
   map shape (snd (ltc_reset_charge (traced chip_hal) 0 (demo_chip [False, True], []))) =
     [Bus [0x01] 1, Bus [0x01, 0x01] 0, Bus [0x02, 0x00] 0, Bus [0x03, 0x00] 0,
      Bus [0x01, 0x00] 0]"
proof -
  have "outcomes (snd (ltc_reset_charge (traced chip_hal) 0 (demo_chip [False, True], []))) =
     [False, True, True, True, True]"
    by (simp add: ltc_reset_charge_def traced_read traced_write chip_hal_def chip_readWrite_def
        serve_def stored_def demo_chip_def CONTROL_REG_def ACCUM_CHARGE_MSB_REG_def
        ACCUM_CHARGE_LSB_REG_def SHUTDOWN_MODE_def)
  moreover have "ltc_readRegister chip_hal 0 CONTROL_REG 0 (demo_chip [False, True]) =
      (False, 0, demo_chip [True])"
    by (simp add: ltc_readRegister_def chip_hal_def chip_readWrite_def stored_def demo_chip_def)
  moreover
  have "assemble 0x99 0x34 = 0x9934" "assemble 0x99 0x38 = 0x9938"
    by (simp_all add: assemble_def)
  moreover have "(demo_chip [False, True])\<lparr>plan := []\<rparr> = demo_chip []"
    by (simp add: demo_chip_def)
  moreover have h: "length (regs (demo_chip [False, True])) = 16"
      "plan (demo_chip [False, True]) = [False, True]"
    by (simp_all add: demo_chip_ok)
  moreover note no_early_abort [OF h, where h = chip_hal and dev = 0 and ?a0.0 = "0x77"
        and ?a1.0 = "0x99" and w = "demo_chip [False, True]", unfolded demo_chip_regs]
  ultimately show ?thesis
    by (simp add: VOLTAGE_MSB_REG_def VOLTAGE_LSB_REG_def CONTROL_REG_def
        ACCUM_CHARGE_MSB_REG_def ACCUM_CHARGE_LSB_REG_def SHUTDOWN_MODE_def)
qed

text \<open>
  C10. \<open>ltc_temp\<close> stores the assembled 16-bit code in a signed 16-bit output: when the
  MSB byte is 0x80 or greater, the value the caller reads is the raw code
  \<open>256 * MSB + LSB\<close> minus 65536, a negative number.
\<close>

theorem temp_reads_high_codes_negative:
  assumes "length (regs c) = 16" and "plan c = []"
    and "0x80 \<le> reg_at c TEMPERATURE_MSB_REG"
  shows "uint (fst (snd (ltc_temp chip_hal dev a0 a1 c))) =
           256 * uint (reg_at c TEMPERATURE_MSB_REG) + uint (reg_at c TEMPERATURE_LSB_REG) \<and>
         sint (fst (snd (ltc_temp chip_hal dev a0 a1 c))) =
           256 * uint (reg_at c TEMPERATURE_MSB_REG) + uint (reg_at c TEMPERATURE_LSB_REG) - 65536 \<and>
         sint (fst (snd (ltc_temp chip_hal dev a0 a1 c))) < 0"
proof -
  have v: "fst (snd (ltc_temp chip_hal dev a0 a1 c)) =
        assemble (reg_at c TEMPERATURE_MSB_REG) (reg_at c TEMPERATURE_LSB_REG)"
    using assms(1,2) by (simp add: temp_read_pair chip_read_pair reg_numbers)
  have "256 * uint (reg_at c TEMPERATURE_MSB_REG) + uint (reg_at c TEMPERATURE_LSB_REG) < 65536"
    using uint_byte [of "reg_at c TEMPERATURE_MSB_REG"] uint_byte [of "reg_at c TEMPERATURE_LSB_REG"]
    by linarith
  then show ?thesis
    by (simp add: v uint_assemble sint_assemble_neg [OF assms(3)])
qed

theorem temp_reads_high_codes_negative_witness:
  "length (regs (demo_chip [])) = 16 \<and> plan (demo_chip []) = [] \<and>
   (0x80 :: uint8_t) \<le> reg_at (demo_chip []) TEMPERATURE_MSB_REG \<and>
   uint (fst (snd (ltc_temp chip_hal 0 0 0 (demo_chip [])))) = 65336 \<and>
   sint (fst (snd (ltc_temp chip_hal 0 0 0 (demo_chip [])))) = - 200"
proof -
  have h: "(0x80 :: uint8_t) \<le> reg_at (demo_chip []) TEMPERATURE_MSB_REG"
    by (simp add: demo_chip_regs)
  have k: "length (regs (demo_chip [])) = 16" "plan (demo_chip []) = []"
    by (simp_all add: demo_chip_ok)
  show ?thesis
    using h k temp_reads_high_codes_negative [OF k h, of 0 0 0]
    by (simp add: demo_chip_regs)
qed

end
